theory Spec2Isabelle
  imports Main "HOL-Library.Word"
begin

section \<open>The user service: types\<close>

text \<open>
  The program is one Go file, \<^verbatim>\<open>main.go\<close>: three HTTP handlers on an \<^verbatim>\<open>App\<close> that
  holds a database handle. Go strings are byte sequences, modelled as \<^typ>\<open>string\<close>.

  A JSON value, as it stands in the body of a request. A string is the sequence of bytes
  of the literal with its escapes resolved (an escape that names half of a surrogate pair
  resolved to U+FFFD, as the decoder does); the bytes need not be well-formed UTF-8. The
  digits of a number are kept as they are written.
\<close>

datatype json =
    JNull
  | JBool bool
  | JNumber string
  | JString string
  | JArray "json list"
  | JObject "(string \<times> json) list"

text \<open>
  Of a \<^verbatim>\<open>*http.Request\<close> the program reads \<^verbatim>\<open>r.Method\<close>, \<^verbatim>\<open>r.URL.Path\<close> and \<^verbatim>\<open>r.Body\<close>. The
  body is the first JSON value that \<^verbatim>\<open>json.NewDecoder(r.Body)\<close> reads, or \<open>None\<close> when no
  well-formed JSON value can be read (empty body, syntax error, read error).
  \<open>EscapedPath\<close> is \<^verbatim>\<open>r.URL.EscapedPath()\<close>, the path as the client sent it; no handler
  reads it, the multiplexer of \<^verbatim>\<open>net/http\<close> does.
\<close>

record request =
  Method :: string
  Path :: string
  EscapedPath :: string
  Body :: "json option"

text \<open>
  \<^verbatim>\<open>type createUserReq struct { Username string `json:"username"`; Email string `json:"email"` }\<close>
\<close>

record createUserReq =
  Username :: string
  Email :: string

text \<open>
  What a handler writes: the status, the \<^verbatim>\<open>Content-Type\<close> header and the body. The body is
  the JSON object that the written text denotes, with its members in the order in which
  the source lists them (a JSON object is unordered). A member is a string or, for the
  \<^verbatim>\<open>int32\<close> identifier, a number.
\<close>

datatype jvalue = VString string | VInt32 "32 word"

record response =
  status :: nat
  content_type :: string
  body :: "(string \<times> jvalue) list"

definition StatusOK :: nat where "StatusOK = 200"
definition StatusCreated :: nat where "StatusCreated = 201"
definition StatusBadRequest :: nat where "StatusBadRequest = 400"
definition StatusNotFound :: nat where "StatusNotFound = 404"
definition StatusInternalServerError :: nat where "StatusInternalServerError = 500"

lemmas Status_defs =
  StatusOK_def StatusCreated_def StatusBadRequest_def StatusNotFound_def
  StatusInternalServerError_def

section \<open>The Go library functions the handlers call\<close>

subsection \<open>strings.HasPrefix, strings.TrimPrefix, strings.Split\<close>

definition HasPrefix :: "string \<Rightarrow> string \<Rightarrow> bool" where
  "HasPrefix s pre = (length pre \<le> length s \<and> take (length pre) s = pre)"

definition TrimPrefix :: "string \<Rightarrow> string \<Rightarrow> string" where
  "TrimPrefix s pre = (if HasPrefix s pre then drop (length pre) s else s)"

text \<open>
  \<^verbatim>\<open>strings.Split(s, sep)\<close> for a separator of one byte, which is how \<^verbatim>\<open>getUser\<close> calls it
  (\<^verbatim>\<open>"/"\<close>): the pieces between the separators, one more than there are separators.
\<close>

fun SplitByte :: "char \<Rightarrow> string \<Rightarrow> string list" where
  "SplitByte sep [] = [[]]"
| "SplitByte sep (c # cs) =
     (if c = sep then [] # SplitByte sep cs
      else (case SplitByte sep cs of
              [] \<Rightarrow> [[c]]
            | p # ps \<Rightarrow> (c # p) # ps))"

subsection \<open>strconv.Atoi\<close>

text \<open>
  \<^verbatim>\<open>strconv.Atoi\<close> reads an optional sign and then decimal digits, at least one, and
  fails on anything else and on a value outside the 64-bit \<^verbatim>\<open>int\<close>. \<open>None\<close> is the
  non-nil error, whose content \<^verbatim>\<open>getUser\<close> discards.
\<close>

definition isDigit :: "char \<Rightarrow> bool" where
  "isDigit c = (48 \<le> (of_char c :: nat) \<and> (of_char c :: nat) \<le> 57)"

definition digitVal :: "char \<Rightarrow> nat" where
  "digitVal c = of_char c - 48"

definition ParseDigits :: "string \<Rightarrow> nat option" where
  "ParseDigits ds =
     (if ds = [] \<or> \<not> list_all isDigit ds then None
      else Some (foldl (\<lambda>a c. 10 * a + digitVal c) 0 ds))"

definition Atoi :: "string \<Rightarrow> int option" where
  "Atoi s =
     (case s of
        [] \<Rightarrow> None
      | c # cs \<Rightarrow>
          (let neg = (c = CHR ''-'');
               ds = (if c = CHR ''+'' \<or> c = CHR ''-'' then cs else s)
           in case ParseDigits ds of
                None \<Rightarrow> None
              | Some un \<Rightarrow>
                  if \<not> neg \<and> 2 ^ 63 \<le> un then None
                  else if neg \<and> 2 ^ 63 < un then None
                  else Some (if neg then - int un else int un)))"

text \<open>\<^verbatim>\<open>strconv.Itoa\<close>, with which a client writes an identifier into a path.\<close>

definition digitChar :: "nat \<Rightarrow> char" where
  "digitChar d = char_of (48 + d)"

function FormatUint :: "nat \<Rightarrow> string" where
  "FormatUint n =
     (if n < 10 then [digitChar n] else FormatUint (n div 10) @ [digitChar (n mod 10)])"
  by pat_completeness auto
termination
  by (relation "measure (\<lambda>n. n)") auto

declare FormatUint.simps [simp del]

definition Itoa :: "int \<Rightarrow> string" where
  "Itoa i = (if i < 0 then CHR ''-'' # FormatUint (nat (- i)) else FormatUint (nat i))"

subsection \<open>strings.TrimSpace\<close>

text \<open>
  \<^verbatim>\<open>strings.TrimSpace\<close> removes the leading and then the trailing white space, as
  \<^verbatim>\<open>unicode.IsSpace\<close> defines it, from the UTF-8 text of the string. The white space runes
  are U+0009 to U+000D, U+0020, U+0085, U+00A0, U+1680, U+2000 to U+200A, U+2028, U+2029,
  U+202F, U+205F and U+3000; \<open>spaceEncodings\<close> lists their UTF-8 encodings. No encoding
  is a prefix or a suffix of the encoding of another rune, so a string begins (ends) with
  a white space rune exactly when it begins (ends) with one of these byte sequences.
\<close>

definition spaceEncodings :: "string list" where
  "spaceEncodings =
     [[CHR 0x09], [CHR 0x0A], [CHR 0x0B], [CHR 0x0C], [CHR 0x0D], [CHR 0x20],
      [CHR 0xC2, CHR 0x85], [CHR 0xC2, CHR 0xA0],
      [CHR 0xE1, CHR 0x9A, CHR 0x80],
      [CHR 0xE2, CHR 0x80, CHR 0x80], [CHR 0xE2, CHR 0x80, CHR 0x81],
      [CHR 0xE2, CHR 0x80, CHR 0x82], [CHR 0xE2, CHR 0x80, CHR 0x83],
      [CHR 0xE2, CHR 0x80, CHR 0x84], [CHR 0xE2, CHR 0x80, CHR 0x85],
      [CHR 0xE2, CHR 0x80, CHR 0x86], [CHR 0xE2, CHR 0x80, CHR 0x87],
      [CHR 0xE2, CHR 0x80, CHR 0x88], [CHR 0xE2, CHR 0x80, CHR 0x89],
      [CHR 0xE2, CHR 0x80, CHR 0x8A],
      [CHR 0xE2, CHR 0x80, CHR 0xA8], [CHR 0xE2, CHR 0x80, CHR 0xA9],
      [CHR 0xE2, CHR 0x80, CHR 0xAF],
      [CHR 0xE2, CHR 0x81, CHR 0x9F],
      [CHR 0xE3, CHR 0x80, CHR 0x80]]"

fun stripOne :: "string list \<Rightarrow> string \<Rightarrow> string option" where
  "stripOne [] s = None"
| "stripOne (enc # encs) s =
     (if enc \<noteq> [] \<and> HasPrefix s enc then Some (drop (length enc) s) else stripOne encs s)"

lemma stripOne_shorter: "stripOne encs s = Some t \<Longrightarrow> length t < length s"
proof (induction encs)
  case Nil
  then show ?case by simp
next
  case (Cons enc encs)
  show ?case
  proof (cases "enc \<noteq> [] \<and> HasPrefix s enc")
    case True
    then have "0 < length enc" and "length enc \<le> length s"
      by (simp_all add: HasPrefix_def)
    moreover from True Cons.prems have "t = drop (length enc) s"
      by simp
    ultimately show ?thesis
      by (simp del: length_greater_0_conv)
  next
    case False
    with Cons show ?thesis by auto
  qed
qed

function trimLeading :: "string list \<Rightarrow> string \<Rightarrow> string" where
  "trimLeading encs s = (case stripOne encs s of None \<Rightarrow> s | Some t \<Rightarrow> trimLeading encs t)"
  by pat_completeness auto
termination
  by (relation "measure (\<lambda>(encs, s). length s)") (auto dest: stripOne_shorter)

declare trimLeading.simps [simp del]

definition TrimLeftSpace :: "string \<Rightarrow> string" where
  "TrimLeftSpace s = trimLeading spaceEncodings s"

definition TrimRightSpace :: "string \<Rightarrow> string" where
  "TrimRightSpace s = rev (trimLeading (map rev spaceEncodings) (rev s))"

definition TrimSpace :: "string \<Rightarrow> string" where
  "TrimSpace s = TrimRightSpace (TrimLeftSpace s)"

subsection \<open>unicode/utf8\<close>

text \<open>
  \<^verbatim>\<open>utf8.DecodeRune\<close>, as far as \<^verbatim>\<open>encoding/json\<close> uses it: the number of bytes of the
  UTF-8 encoding at the head of the string, or \<open>None\<close> where Go returns
  \<^verbatim>\<open>(RuneError, 1)\<close>, that is when the string does not begin with a well-formed encoding.
  \<open>firstByte\<close> is the table \<^verbatim>\<open>first\<close> of package \<^verbatim>\<open>utf8\<close> for the bytes that begin a
  sequence of several bytes: the length of the sequence and the range of its second
  byte; every further byte is in 80 to BF.
\<close>

definition inRange :: "nat \<Rightarrow> nat \<Rightarrow> char \<Rightarrow> bool" where
  "inRange lo hi c = (lo \<le> (of_char c :: nat) \<and> (of_char c :: nat) \<le> hi)"

definition firstByte :: "char \<Rightarrow> (nat \<times> nat \<times> nat) option" where
  "firstByte b0 =
     (if inRange 0xC2 0xDF b0 then Some (2, 0x80, 0xBF)
      else if inRange 0xE0 0xE0 b0 then Some (3, 0xA0, 0xBF)
      else if inRange 0xE1 0xEC b0 then Some (3, 0x80, 0xBF)
      else if inRange 0xED 0xED b0 then Some (3, 0x80, 0x9F)
      else if inRange 0xEE 0xEF b0 then Some (3, 0x80, 0xBF)
      else if inRange 0xF0 0xF0 b0 then Some (4, 0x90, 0xBF)
      else if inRange 0xF1 0xF3 b0 then Some (4, 0x80, 0xBF)
      else if inRange 0xF4 0xF4 b0 then Some (4, 0x80, 0x8F)
      else None)"

definition runeSize :: "string \<Rightarrow> nat option" where
  "runeSize s =
     (case s of
        [] \<Rightarrow> None
      | b0 # bs \<Rightarrow>
          if inRange 0x00 0x7F b0 then Some 1
          else
            (case firstByte b0 of
               None \<Rightarrow> None
             | Some (n, lo, hi) \<Rightarrow>
                 if length bs < n - 1 then None
                 else if inRange lo hi (hd bs) \<and> list_all (inRange 0x80 0xBF) (take (n - 2) (tl bs))
                 then Some n
                 else None))"

text \<open>\<^verbatim>\<open>utf8.ValidString\<close>: the string is a sequence of well-formed encodings.\<close>

function ValidString :: "string \<Rightarrow> bool" where
  "ValidString [] = True"
| "ValidString (b # bs) =
     (case runeSize (b # bs) of
        None \<Rightarrow> False
      | Some n \<Rightarrow> ValidString (drop (n - 1) bs))"
  by pat_completeness auto
termination
  by (relation "measure length") auto

declare ValidString.simps [simp del]

text \<open>
  \<^verbatim>\<open>encoding/json\<close> lets no ill-formed UTF-8 through, in either direction. The decoder
  stores, for a string literal of the body, the bytes of the literal with every byte that
  does not begin a well-formed encoding replaced by the encoding of U+FFFD, the bytes
  EF BF BD. The encoder writes \<^verbatim>\<open>\ufffd\<close> for every such byte of a Go string, so the string
  that the written literal denotes is the Go string with the same replacement made; the
  other escapes that the encoder writes are undone by whoever reads the JSON text.
\<close>

definition replacementChar :: string where
  "replacementChar = [CHR 0xEF, CHR 0xBF, CHR 0xBD]"

function replaceInvalid :: "string \<Rightarrow> string" where
  "replaceInvalid [] = []"
| "replaceInvalid (b # bs) =
     (case runeSize (b # bs) of
        None \<Rightarrow> replacementChar @ replaceInvalid bs
      | Some n \<Rightarrow> b # take (n - 1) bs @ replaceInvalid (drop (n - 1) bs))"
  by pat_completeness auto
termination
  by (relation "measure length") auto

declare replaceInvalid.simps [simp del]

subsection \<open>encoding/json: decoding into \<^verbatim>\<open>createUserReq\<close>\<close>

text \<open>
  \<^verbatim>\<open>Decode\<close> matches an object key to a struct field when their folded names are equal.
  Folding maps the ASCII letters to upper case and every other rune to the smallest rune
  of its simple case-folding orbit. The field names \<^verbatim>\<open>username\<close> and \<^verbatim>\<open>email\<close> are ASCII,
  and the only runes outside ASCII that fold to an ASCII letter are U+017F (to \<^verbatim>\<open>S\<close>,
  UTF-8 bytes C5 BF) and U+212A (to \<^verbatim>\<open>K\<close>, UTF-8 bytes E2 84 AA); every other byte
  outside ASCII stays outside ASCII and is kept as it is.
\<close>

definition toUpper :: "char \<Rightarrow> char" where
  "toUpper c =
     (if 97 \<le> (of_char c :: nat) \<and> (of_char c :: nat) \<le> 122
      then char_of ((of_char c :: nat) - 32) else c)"

function foldName :: "string \<Rightarrow> string" where
  "foldName [] = []"
| "foldName (c # cs) =
     (if c = CHR 0xC5 \<and> take 1 cs = [CHR 0xBF] then CHR ''S'' # foldName (drop 1 cs)
      else if c = CHR 0xE2 \<and> take 2 cs = [CHR 0x84, CHR 0xAA] then CHR ''K'' # foldName (drop 2 cs)
      else toUpper c # foldName cs)"
  by pat_completeness auto
termination
  by (relation "measure length") auto

declare foldName.simps [simp del]

text \<open>
  One member of the object. A key that matches no field is skipped. For a field of type
  \<^verbatim>\<open>string\<close> a JSON string is stored, \<^verbatim>\<open>null\<close> leaves the field as it is, and a value of
  any other kind is an \<^verbatim>\<open>UnmarshalTypeError\<close>, which \<^verbatim>\<open>Decode\<close> returns.
\<close>

definition setField :: "createUserReq \<Rightarrow> string \<times> json \<Rightarrow> createUserReq option" where
  "setField req kv =
     (if foldName (replaceInvalid (fst kv)) = foldName ''username'' then
        (case snd kv of
           JString s \<Rightarrow> Some (req\<lparr>Username := replaceInvalid s\<rparr>)
         | JNull \<Rightarrow> Some req
         | _ \<Rightarrow> None)
      else if foldName (replaceInvalid (fst kv)) = foldName ''email'' then
        (case snd kv of
           JString s \<Rightarrow> Some (req\<lparr>Email := replaceInvalid s\<rparr>)
         | JNull \<Rightarrow> Some req
         | _ \<Rightarrow> None)
      else Some req)"

fun setFields :: "createUserReq \<Rightarrow> (string \<times> json) list \<Rightarrow> createUserReq option" where
  "setFields req [] = Some req"
| "setFields req (kv # kvs) =
     (case setField req kv of
        None \<Rightarrow> None
      | Some req' \<Rightarrow> setFields req' kvs)"

text \<open>
  \<^verbatim>\<open>json.NewDecoder(r.Body).Decode(&req)\<close> with \<^verbatim>\<open>req\<close> the zero value: \<open>None\<close> is a non-nil
  error. A top-level \<^verbatim>\<open>null\<close> leaves \<^verbatim>\<open>req\<close> as it is without an error; a top-level string,
  number, boolean or array cannot be stored in a struct.
\<close>

definition Decode :: "json option \<Rightarrow> createUserReq option" where
  "Decode b =
     (case b of
        None \<Rightarrow> None
      | Some JNull \<Rightarrow> Some \<lparr>Username = [], Email = []\<rparr>
      | Some (JObject kvs) \<Rightarrow> setFields \<lparr>Username = [], Email = []\<rparr> kvs
      | Some _ \<Rightarrow> None)"

subsection \<open>encoding/json: writing a response\<close>

fun writtenValue :: "jvalue \<Rightarrow> jvalue" where
  "writtenValue (VString s) = VString (replaceInvalid s)"
| "writtenValue (VInt32 i) = VInt32 i"

text \<open>
  \<^verbatim>\<open>jsonWrite\<close> sets the header, writes the status and encodes the map \<open>v\<close>.
\<close>

definition jsonWrite :: "nat \<Rightarrow> (string \<times> jvalue) list \<Rightarrow> response" where
  "jsonWrite st v =
     \<lparr>status = st,
      content_type = ''application/json'',
      body = map (\<lambda>kv. (replaceInvalid (fst kv), writtenValue (snd kv))) v\<rparr>"

subsection \<open>database/sql\<close>

text \<open>
  An \<^verbatim>\<open>error\<close> of the database layer is either the value \<^verbatim>\<open>sql.ErrNoRows\<close>, which
  \<^verbatim>\<open>getUser\<close> compares with \<^verbatim>\<open>==\<close>, or any other error, of which the handlers use the text
  only. \<^verbatim>\<open>Error\<close> is the method \<^verbatim>\<open>err.Error()\<close>.
\<close>

datatype go_error = ErrNoRows | Err string

fun Error :: "go_error \<Rightarrow> string" where
  "Error ErrNoRows = ''sql: no rows in result set''"
| "Error (Err msg) = msg"

datatype sql_arg = ArgString string | ArgInt int

text \<open>
  \<^verbatim>\<open>a.DB.QueryRowContext(ctx, query, args...).Scan(dest...)\<close> is the one way the handlers
  reach the database. It is a parameter of the model: a function of the statement text,
  its arguments and the state of the database, giving the scanned row or an error, and
  the next state. \<^verbatim>\<open>createUser\<close> scans into one \<^verbatim>\<open>int32\<close>, \<^verbatim>\<open>getUser\<close> into an \<^verbatim>\<open>int32\<close> and
  two strings.
\<close>

record 'db App =
  QueryRowScanId :: "string \<Rightarrow> sql_arg list \<Rightarrow> 'db \<Rightarrow> (go_error + 32 word) \<times> 'db"
  QueryRowScanUser ::
    "string \<Rightarrow> sql_arg list \<Rightarrow> 'db \<Rightarrow> (go_error + 32 word \<times> string \<times> string) \<times> 'db"

section \<open>The handlers\<close>


definition insert_sql :: string where
  "insert_sql = ''INSERT INTO users (username, email) VALUES ($1, $2) RETURNING user_id''"

definition select_sql :: string where
  "select_sql = ''SELECT user_id, username, email FROM users WHERE user_id = $1''"

definition createUser :: "'db App \<Rightarrow> request \<Rightarrow> 'db \<Rightarrow> response \<times> 'db" where
  "createUser a r db =
     (case Decode (Body r) of
        None \<Rightarrow> (jsonWrite StatusBadRequest [(''error'', VString ''invalid JSON'')], db)
      | Some req \<Rightarrow>
          if TrimSpace (Username req) = [] \<or> TrimSpace (Email req) = [] then
            (jsonWrite StatusBadRequest
               [(''error'', VString ''username and email are required'')], db)
          else
            (case QueryRowScanId a insert_sql
                    [ArgString (Username req), ArgString (Email req)] db of
               (Inl err, db') \<Rightarrow>
                 (jsonWrite StatusInternalServerError
                    [(''error'', VString ''Database error''),
                     (''detail'', VString (Error err))], db')
             | (Inr uid, db') \<Rightarrow>
                 (jsonWrite StatusCreated
                    [(''message'', VString ''User created successfully''),
                     (''user_id'', VInt32 uid)], db')))"

text \<open>
  \<^verbatim>\<open>strings.Split\<close> with a non-empty separator returns at least one piece, so the test
  \<^verbatim>\<open>len(parts) < 1\<close> of the source is kept as the case of the empty list.
\<close>

definition getUser :: "'db App \<Rightarrow> request \<Rightarrow> 'db \<Rightarrow> response \<times> 'db" where
  "getUser a r db =
     (case SplitByte CHR ''/'' (TrimPrefix (Path r) ''/users/'') of
        [] \<Rightarrow> (jsonWrite StatusBadRequest [(''error'', VString ''Invalid user_id'')], db)
      | part0 # rest \<Rightarrow>
          if part0 = [] then
            (jsonWrite StatusBadRequest [(''error'', VString ''Invalid user_id'')], db)
          else
            (case Atoi part0 of
               None \<Rightarrow>
                 (jsonWrite StatusBadRequest [(''error'', VString ''Invalid user_id'')], db)
             | Some uid \<Rightarrow>
                 (case QueryRowScanUser a select_sql [ArgInt uid] db of
                    (Inl err, db') \<Rightarrow>
                      if err = ErrNoRows then
                        (jsonWrite StatusNotFound [(''error'', VString ''User not found'')], db')
                      else
                        (jsonWrite StatusInternalServerError
                           [(''error'', VString ''Database error''),
                            (''detail'', VString (Error err))], db')
                  | (Inr (userID, username, email), db') \<Rightarrow>
                      (jsonWrite StatusOK
                         [(''user_id'', VInt32 userID),
                          (''username'', VString username),
                          (''email'', VString email)], db'))))"

definition handleUsers :: "'db App \<Rightarrow> request \<Rightarrow> 'db \<Rightarrow> response \<times> 'db" where
  "handleUsers a r db =
     (if Method r = ''POST'' \<and> Path r = ''/users'' then createUser a r db
      else if Method r = ''GET'' \<and> HasPrefix (Path r) ''/users/'' then getUser a r db
      else (jsonWrite StatusNotFound [(''error'', VString ''Not Found'')], db))"

section \<open>The multiplexer\<close>







section \<open>Observing the calls to the database\<close>

text \<open>
  To count the statements a handler issues, any \<^verbatim>\<open>App\<close> is wrapped so that every call is
  appended, with its statement text and arguments, to a log kept beside the state of the
  database. The wrapped \<^verbatim>\<open>App\<close> answers as the original does.
\<close>

type_synonym call_log = "(string \<times> sql_arg list) list"

definition recording :: "'db App \<Rightarrow> ('db \<times> call_log) App" where
  "recording a =
     \<lparr>QueryRowScanId = (\<lambda>q args (db, log).
          (case QueryRowScanId a q args db of (res, db') \<Rightarrow> (res, (db', log @ [(q, args)])))),
      QueryRowScanUser = (\<lambda>q args (db, log).
          (case QueryRowScanUser a q args db of (res, db') \<Rightarrow> (res, (db', log @ [(q, args)]))))\<rparr>"

text \<open>
  A database that cannot be reached: every call fails with the given error.
\<close>

definition unavailable :: "go_error \<Rightarrow> 'db App" where
  "unavailable err =
     \<lparr>QueryRowScanId = (\<lambda>q args db. (Inl err, db)),
      QueryRowScanUser = (\<lambda>q args db. (Inl err, db))\<rparr>"

section \<open>A table of users\<close>

text \<open>
  Modelled from the spec: the database is not code of this repository. The specification
  asks for \<^emph>\<open>a table holding user records with an auto-generated integer primary key and
  two required text columns\<close>, on which the service issues exactly two statements, an
  \<^verbatim>\<open>INSERT ... RETURNING\<close> of the new key and a \<^verbatim>\<open>SELECT\<close> by key. The table below is that:
  rows of a key and two texts, and the next value of the sequence that generates the
  keys. The key is a 32-bit integer of the database, so an insertion fails once the
  sequence has left that range; the sequence advances all the same. A lookup that finds
  no row answers \<^verbatim>\<open>sql.ErrNoRows\<close>, as \<^verbatim>\<open>Row.Scan\<close> does.
\<close>

record pgdb =
  users :: "(int \<times> string \<times> string) list"
  next_id :: int

definition pg_empty :: pgdb where
  "pg_empty = \<lparr>users = [], next_id = 1\<rparr>"

definition int32_max :: int where
  "int32_max = 2147483647"

fun pg_insert :: "string \<Rightarrow> sql_arg list \<Rightarrow> pgdb \<Rightarrow> (go_error + 32 word) \<times> pgdb" where
  "pg_insert q [ArgString u, ArgString e] db =
     (if q = insert_sql then
        (if next_id db \<le> int32_max then
           (Inr (word_of_int (next_id db)),
            db\<lparr>users := users db @ [(next_id db, u, e)], next_id := next_id db + 1\<rparr>)
         else (Inl (Err ''integer out of range''), db\<lparr>next_id := next_id db + 1\<rparr>))
      else (Inl (Err ''unexpected statement''), db))"
| "pg_insert q args db = (Inl (Err ''unexpected arguments''), db)"

fun pg_select ::
  "string \<Rightarrow> sql_arg list \<Rightarrow> pgdb \<Rightarrow> (go_error + 32 word \<times> string \<times> string) \<times> pgdb" where
  "pg_select q [ArgInt i] db =
     (if q = select_sql then
        (case find (\<lambda>row. fst row = i) (users db) of
           None \<Rightarrow> (Inl ErrNoRows, db)
         | Some (k, u, e) \<Rightarrow> (Inr (word_of_int k, u, e), db))
      else (Inl (Err ''unexpected statement''), db))"
| "pg_select q args db = (Inl (Err ''unexpected arguments''), db)"

definition pg :: "pgdb App" where
  "pg = \<lparr>QueryRowScanId = pg_insert, QueryRowScanUser = pg_select\<rparr>"


text \<open>The table after \<^verbatim>\<open>alice\<close> has been inserted into the empty table.\<close>

definition db_alice :: pgdb where
  "db_alice = \<lparr>users = [(1, ''alice'', ''a@x.com'')], next_id = 2\<rparr>"

section \<open>Facts about the library functions\<close>

lemma SplitByte_no_sep: "sep \<notin> set seg \<Longrightarrow> SplitByte sep seg = [seg]"
  by (induction seg) auto

lemma SplitByte_first:
  "sep \<notin> set seg \<Longrightarrow> SplitByte sep (seg @ sep # t) = seg # SplitByte sep t"
  by (induction seg) auto

lemma SplitByte_segment:
  assumes "sep \<notin> set seg" and "rest = [] \<or> hd rest = sep"
  shows "\<exists>ps. SplitByte sep (seg @ rest) = seg # ps"
proof (cases rest)
  case Nil
  with assms show ?thesis by (simp add: SplitByte_no_sep)
next
  case (Cons c t)
  with assms have "rest = sep # t" by simp
  with assms show ?thesis by (simp add: SplitByte_first)
qed

lemma HasPrefix_append [simp]: "HasPrefix (pre @ s) pre"
  by (simp add: HasPrefix_def)

lemma TrimPrefix_append [simp]: "TrimPrefix (pre @ s) pre = s"
  by (simp add: TrimPrefix_def)

lemma Atoi_Nil [simp]: "Atoi [] = None"
  by (simp add: Atoi_def)

text \<open>\<^verbatim>\<open>strconv.Atoi\<close> reads back what \<^verbatim>\<open>strconv.Itoa\<close> writes.\<close>

lemma isDigit_digitChar: "d < 10 \<Longrightarrow> isDigit (digitChar d)"
  by (simp add: isDigit_def digitChar_def)

lemma digitVal_digitChar: "d < 10 \<Longrightarrow> digitVal (digitChar d) = d"
  by (simp add: digitVal_def digitChar_def)

lemma FormatUint_not_Nil: "FormatUint n \<noteq> []"
  by (subst FormatUint.simps) simp

lemma FormatUint_digits: "list_all isDigit (FormatUint n)"
proof (induction n rule: FormatUint.induct)
  case (1 n)
  show ?case
  proof (cases "n < 10")
    case True
    then show ?thesis by (subst FormatUint.simps) (simp add: isDigit_digitChar)
  next
    case False
    with 1 show ?thesis by (subst FormatUint.simps) (simp add: isDigit_digitChar)
  qed
qed

lemma FormatUint_value: "foldl (\<lambda>a c. 10 * a + digitVal c) 0 (FormatUint n) = n"
proof (induction n rule: FormatUint.induct)
  case (1 n)
  show ?case
  proof (cases "n < 10")
    case True
    then show ?thesis by (subst FormatUint.simps) (simp add: digitVal_digitChar)
  next
    case False
    with 1 show ?thesis by (subst FormatUint.simps) (simp add: digitVal_digitChar)
  qed
qed

lemma ParseDigits_FormatUint: "ParseDigits (FormatUint n) = Some n"
  by (simp add: ParseDigits_def FormatUint_not_Nil FormatUint_digits FormatUint_value)

lemma isDigit_not_sign:
  "isDigit c \<Longrightarrow> c \<noteq> CHR ''+'' \<and> c \<noteq> CHR ''-'' \<and> c \<noteq> CHR ''/''"
  by (auto simp add: isDigit_def)

lemma FormatUint_Cons: "\<exists>c cs. FormatUint n = c # cs \<and> isDigit c"
  using FormatUint_not_Nil [of n] FormatUint_digits [of n]
  by (cases "FormatUint n") auto

lemma Atoi_Itoa:
  assumes "- (2 ^ 63) \<le> i" and "i < 2 ^ 63"
  shows "Atoi (Itoa i) = Some i"
proof (cases "i < 0")
  case True
  with assms have "nat (- i) \<le> 2 ^ 63" by simp
  with True show ?thesis
    by (simp add: Atoi_def Itoa_def ParseDigits_FormatUint)
next
  case False
  obtain c cs where c: "FormatUint (nat i) = c # cs" "isDigit c"
    using FormatUint_Cons by blast
  from False assms have "nat i < 2 ^ 63" by simp
  with False c isDigit_not_sign [OF c(2)] ParseDigits_FormatUint [of "nat i"] show ?thesis
    by (simp add: Atoi_def Itoa_def)
qed

lemma Itoa_no_slash: "CHR ''/'' \<notin> set (Itoa i)"
proof -
  have "CHR ''/'' \<notin> set (FormatUint n)" for n
    using FormatUint_digits [of n] isDigit_not_sign by (auto simp add: list_all_iff)
  then show ?thesis by (simp add: Itoa_def)
qed

text \<open>What \<^verbatim>\<open>encoding/json\<close> stores or writes is well-formed UTF-8, and well-formed UTF-8 is
  stored and written as it is.\<close>

lemma ValidString_Nil [simp]: "ValidString []"
  by (simp add: ValidString.simps)

lemma replaceInvalid_Nil [simp]: "replaceInvalid [] = []"
  by (simp add: replaceInvalid.simps)

lemma runeSize_pos: "runeSize s = Some n \<Longrightarrow> 1 \<le> n \<and> n \<le> length s"
  by (cases s)
    (auto simp add: runeSize_def firstByte_def Suc_le_eq split: if_splits option.splits)

lemma runeSize_prefix:
  assumes "runeSize (b # bs) = Some n"
  shows "runeSize (b # take (n - 1) bs @ t) = Some n"
proof (cases "inRange 0x00 0x7F b")
  case True
  with assms show ?thesis by (simp add: runeSize_def)
next
  case False
  with assms obtain lo hi where fb: "firstByte b = Some (n, lo, hi)"
    and len: "n - 1 \<le> length bs"
    and ok: "inRange lo hi (hd bs)" "list_all (inRange 0x80 0xBF) (take (n - 2) (tl bs))"
    by (auto simp add: runeSize_def split: option.splits if_splits)
  from fb have "2 \<le> n" by (auto simp add: firstByte_def split: if_splits)
  then obtain m where n: "n = Suc (Suc m)"
    by (cases n rule: nat.exhaust) (auto simp add: Suc_le_eq gr0_conv_Suc)
  with len obtain c cs where bs: "bs = c # cs" by (cases bs) auto
  with n len have "m \<le> length cs" by simp
  with False fb ok bs n show ?thesis by (simp add: runeSize_def)
qed

lemma runeSize_replacementChar: "runeSize (replacementChar @ t) = Some 3"
  by (simp add: replacementChar_def runeSize_def firstByte_def inRange_def)

lemma ValidString_replacementChar: "ValidString (replacementChar @ t) = ValidString t"
  using runeSize_replacementChar [of t] by (simp add: replacementChar_def ValidString.simps)

lemma ValidString_prefix:
  assumes "runeSize (b # bs) = Some n"
  shows "ValidString (b # take (n - 1) bs @ t) = ValidString t"
proof -
  from runeSize_pos [OF assms] have "n - 1 \<le> length bs" by auto
  then have "drop (n - 1) (take (n - 1) bs @ t) = t" by simp
  with runeSize_prefix [OF assms, of t] show ?thesis by (simp add: ValidString.simps)
qed

lemma ValidString_replaceInvalid: "ValidString (replaceInvalid s)"
proof (induction s rule: replaceInvalid.induct)
  case 1
  show ?case by (simp add: replaceInvalid.simps ValidString.simps)
next
  case (2 b bs)
  show ?case
  proof (cases "runeSize (b # bs)")
    case None
    with 2 show ?thesis by (simp add: replaceInvalid.simps ValidString_replacementChar)
  next
    case (Some n)
    with 2 ValidString_prefix [OF Some, of "replaceInvalid (drop (n - 1) bs)"] show ?thesis
      by (simp add: replaceInvalid.simps)
  qed
qed

lemma replaceInvalid_valid: "ValidString s \<Longrightarrow> replaceInvalid s = s"
proof (induction s rule: replaceInvalid.induct)
  case 1
  show ?case by (simp add: replaceInvalid.simps)
next
  case (2 b bs)
  then show ?case
    by (auto simp add: replaceInvalid.simps ValidString.simps split: option.splits)
qed

lemma ValidString_ascii: "list_all (inRange 0x00 0x7F) s \<Longrightarrow> ValidString s"
  by (induction s) (auto simp add: runeSize_def ValidString.simps)

lemma replaceInvalid_ascii: "list_all (inRange 0x00 0x7F) s \<Longrightarrow> replaceInvalid s = s"
  by (simp add: replaceInvalid_valid ValidString_ascii)

lemma setField_valid:
  assumes "setField req kv = Some req'"
    and "ValidString (Username req)" and "ValidString (Email req)"
  shows "ValidString (Username req') \<and> ValidString (Email req')"
  using assms
  by (auto simp add: setField_def ValidString_replaceInvalid split: if_splits json.splits)

lemma setFields_valid:
  "setFields req kvs = Some req' \<Longrightarrow> ValidString (Username req) \<Longrightarrow> ValidString (Email req)
     \<Longrightarrow> ValidString (Username req') \<and> ValidString (Email req')"
proof (induction kvs arbitrary: req)
  case Nil
  then show ?case by simp
next
  case (Cons kv kvs)
  from Cons.prems(1) obtain req1 where 1: "setField req kv = Some req1"
    and 2: "setFields req1 kvs = Some req'"
    by (auto split: option.splits)
  from setField_valid [OF 1 Cons.prems(2,3)] Cons.IH [OF 2] show ?case by simp
qed

lemma Decode_valid:
  assumes "Decode b = Some req"
  shows "ValidString (Username req) \<and> ValidString (Email req)"
proof -
  have z: "ValidString (Username \<lparr>Username = [], Email = []\<rparr>)"
    "ValidString (Email \<lparr>Username = [], Email = []\<rparr>)"
    by (simp_all add: ValidString.simps)
  from assms show ?thesis
    using setFields_valid [OF _ z]
    by (auto simp add: Decode_def split: option.splits json.splits)
qed

text \<open>The responses with a fixed text.\<close>

lemma jsonWrite_fixed:
  "jsonWrite st [(''error'', VString ''Not Found'')] =
     \<lparr>status = st, content_type = ''application/json'',
      body = [(''error'', VString ''Not Found'')]\<rparr>"
  "jsonWrite st [(''message'', VString ''Hello World from Go'')] =
     \<lparr>status = st, content_type = ''application/json'',
      body = [(''message'', VString ''Hello World from Go'')]\<rparr>"
  "jsonWrite st [(''error'', VString ''invalid JSON'')] =
     \<lparr>status = st, content_type = ''application/json'',
      body = [(''error'', VString ''invalid JSON'')]\<rparr>"
  "jsonWrite st [(''error'', VString ''username and email are required'')] =
     \<lparr>status = st, content_type = ''application/json'',
      body = [(''error'', VString ''username and email are required'')]\<rparr>"
  "jsonWrite st [(''error'', VString ''Invalid user_id'')] =
     \<lparr>status = st, content_type = ''application/json'',
      body = [(''error'', VString ''Invalid user_id'')]\<rparr>"
  "jsonWrite st [(''error'', VString ''User not found'')] =
     \<lparr>status = st, content_type = ''application/json'',
      body = [(''error'', VString ''User not found'')]\<rparr>"
  "jsonWrite st [(''error'', VString ''Database error''), (''detail'', VString msg)] =
     \<lparr>status = st, content_type = ''application/json'',
      body = [(''error'', VString ''Database error''),
              (''detail'', VString (replaceInvalid msg))]\<rparr>"
  "jsonWrite st [(''message'', VString ''User created successfully''), (''user_id'', VInt32 uid)] =
     \<lparr>status = st, content_type = ''application/json'',
      body = [(''message'', VString ''User created successfully''), (''user_id'', VInt32 uid)]\<rparr>"
  "jsonWrite st [(''user_id'', VInt32 uid), (''username'', VString u), (''email'', VString e)] =
     \<lparr>status = st, content_type = ''application/json'',
      body = [(''user_id'', VInt32 uid), (''username'', VString (replaceInvalid u)),
              (''email'', VString (replaceInvalid e))]\<rparr>"
  by (simp_all add: jsonWrite_def replaceInvalid_ascii inRange_def)

text \<open>The wrapped \<^verbatim>\<open>App\<close> answers as the original and appends the call to the log.\<close>

lemma recording_ScanId:
  "QueryRowScanId (recording a) q args (db, log) =
     (fst (QueryRowScanId a q args db), (snd (QueryRowScanId a q args db), log @ [(q, args)]))"
  by (simp add: recording_def split: prod.splits)

lemma recording_ScanUser:
  "QueryRowScanUser (recording a) q args (db, log) =
     (fst (QueryRowScanUser a q args db),
      (snd (QueryRowScanUser a q args db), log @ [(q, args)]))"
  by (simp add: recording_def split: prod.splits)

section \<open>Facts about the handlers\<close>

lemma handleUsers_get:
  assumes "Method r = ''GET''" and "Path r = ''/users/'' @ s"
  shows "handleUsers a r db = getUser a r db"
proof -
  have "HasPrefix (Path r) ''/users/''"
    using assms(2) HasPrefix_append [of "''/users/''" s] by simp
  with assms(1) show ?thesis by (simp add: handleUsers_def)
qed

lemma handleUsers_create:
  "Method r = ''POST'' \<Longrightarrow> Path r = ''/users'' \<Longrightarrow> handleUsers a r db = createUser a r db"
  by (simp add: handleUsers_def)

lemma getUser_invalid:
  assumes "Path r = ''/users/'' @ seg @ rest"
    and "CHR ''/'' \<notin> set seg"
    and "rest = [] \<or> hd rest = CHR ''/''"
    and "seg = [] \<or> Atoi seg = None"
  shows "getUser a r db =
           (\<lparr>status = 400, content_type = ''application/json'',
             body = [(''error'', VString ''Invalid user_id'')]\<rparr>, db)"
proof -
  obtain ps where "SplitByte CHR ''/'' (seg @ rest) = seg # ps"
    using SplitByte_segment [OF assms(2,3)] by blast
  moreover have "TrimPrefix (Path r) ''/users/'' = seg @ rest"
    using assms(1) TrimPrefix_append [of "''/users/''" "seg @ rest"] by simp
  ultimately show ?thesis
    using assms(4) by (auto simp add: getUser_def jsonWrite_fixed StatusBadRequest_def)
qed

text \<open>What \<^verbatim>\<open>getUser\<close> does once the first segment is an integer.\<close>

lemma getUser_valid:
  assumes "Path r = ''/users/'' @ seg @ rest"
    and "CHR ''/'' \<notin> set seg"
    and "rest = [] \<or> hd rest = CHR ''/''"
    and "Atoi seg = Some n"
  shows "getUser a r db =
     (case QueryRowScanUser a select_sql [ArgInt n] db of
        (Inl err, db') \<Rightarrow>
          if err = ErrNoRows then
            (\<lparr>status = 404, content_type = ''application/json'',
              body = [(''error'', VString ''User not found'')]\<rparr>, db')
          else
            (\<lparr>status = 500, content_type = ''application/json'',
              body = [(''error'', VString ''Database error''),
                      (''detail'', VString (replaceInvalid (Error err)))]\<rparr>, db')
      | (Inr (userID, username, email), db') \<Rightarrow>
          (\<lparr>status = 200, content_type = ''application/json'',
            body = [(''user_id'', VInt32 userID),
                    (''username'', VString (replaceInvalid username)),
                    (''email'', VString (replaceInvalid email))]\<rparr>, db'))"
proof -
  obtain ps where "SplitByte CHR ''/'' (seg @ rest) = seg # ps"
    using SplitByte_segment [OF assms(2,3)] by blast
  moreover have "TrimPrefix (Path r) ''/users/'' = seg @ rest"
    using assms(1) TrimPrefix_append [of "''/users/''" "seg @ rest"] by simp
  moreover have "seg \<noteq> []"
    using assms(4) by auto
  ultimately show ?thesis
    using assms(4)
    by (simp add: getUser_def jsonWrite_fixed Status_defs split: prod.splits sum.splits)
qed

lemma createUser_valid:
  assumes "Decode (Body r) = Some req"
    and "TrimSpace (Username req) \<noteq> []" and "TrimSpace (Email req) \<noteq> []"
  shows "createUser a r db =
     (case QueryRowScanId a insert_sql [ArgString (Username req), ArgString (Email req)] db of
        (Inl err, db') \<Rightarrow>
          (\<lparr>status = 500, content_type = ''application/json'',
            body = [(''error'', VString ''Database error''),
                    (''detail'', VString (replaceInvalid (Error err)))]\<rparr>, db')
      | (Inr uid, db') \<Rightarrow>
          (\<lparr>status = 201, content_type = ''application/json'',
            body = [(''message'', VString ''User created successfully''),
                    (''user_id'', VInt32 uid)]\<rparr>, db'))"
  using assms
  by (simp add: createUser_def jsonWrite_fixed Status_defs split: prod.splits sum.splits)

section \<open>Worked requests\<close>

text \<open>
  The library functions and the handlers on the requests that the examples below use.
\<close>

lemma TrimSpace_eval:
  "TrimSpace ''alice'' = ''alice''" "TrimSpace ''a@x.com'' = ''a@x.com''"
  "TrimSpace '' alice '' = ''alice''" "TrimSpace '' a@x.com'' = ''a@x.com''"
  "TrimSpace '' '' = []" "TrimSpace [] = []"
  by code_simp+

lemma foldName_eval:
  "foldName ''username'' = ''USERNAME''" "foldName ''email'' = ''EMAIL''"
  by code_simp+

lemma ValidString_eval:
  "ValidString ''alice''" "ValidString ''a@x.com''" "ValidString '' alice ''" "ValidString '' ''"
  by (simp_all add: ValidString_ascii inRange_def)

lemma Decode_eval:
  "ValidString u \<Longrightarrow> ValidString e \<Longrightarrow>
   Decode (Some (JObject [(''username'', JString u), (''email'', JString e)])) =
     Some \<lparr>Username = u, Email = e\<rparr>"
  by (simp add: Decode_def setField_def foldName_eval replaceInvalid_ascii inRange_def
      replaceInvalid_valid)

lemma Decode_eval_bad:
  "Decode None = None"
  "Decode (Some JNull) = Some \<lparr>Username = [], Email = []\<rparr>"
  "Decode (Some (JObject [(''username'', JNumber ''5''), (''email'', JString ''a@x.com'')])) = None"
  by (simp_all add: Decode_def setField_def foldName_eval replaceInvalid_ascii inRange_def)

lemma Atoi_eval:
  "Atoi ''1'' = Some 1" "Atoi ''7'' = Some 7" "Atoi ''abc'' = None" "Atoi ''12x'' = None"
  by (simp_all add: Atoi_def ParseDigits_def isDigit_def digitVal_def)

lemma Itoa_eval: "Itoa 1 = ''1''"
  by code_simp




section \<open>Facts about the table\<close>






section \<open>The claims\<close>

subsection \<open>Routing\<close>




subsection \<open>Creating a user\<close>

text \<open>
  Claim C2 (order of the validation, and no write). For a \<^verbatim>\<open>POST /users\<close> request: if the
  body does not decode into \<^verbatim>\<open>createUserReq\<close>, the answer is status 400 with the body
  \<^verbatim>\<open>{"error":"invalid JSON"}\<close>; if it decodes and the user name or the e-mail address is
  empty once the white space around it is trimmed, the answer is status 400 with the body
  \<^verbatim>\<open>{"error":"username and email are required"}\<close>. In both cases no statement is sent to
  the database: the log of calls and the state of the database are as before.
\<close>

theorem create_validation:
  assumes "Method r = ''POST''" and "Path r = ''/users''"
  shows "(Decode (Body r) = None \<longrightarrow>
            handleUsers (recording a) r (db, log) =
              (\<lparr>status = 400, content_type = ''application/json'',
                body = [(''error'', VString ''invalid JSON'')]\<rparr>, (db, log)))
       \<and> (\<forall>req. Decode (Body r) = Some req \<longrightarrow>
            TrimSpace (Username req) = [] \<or> TrimSpace (Email req) = [] \<longrightarrow>
            handleUsers (recording a) r (db, log) =
              (\<lparr>status = 400, content_type = ''application/json'',
                body = [(''error'', VString ''username and email are required'')]\<rparr>,
               (db, log)))"
  using assms
  by (auto simp add: handleUsers_create createUser_def jsonWrite_fixed Status_defs)

text \<open>
  No body, or a number for the user name: invalid JSON. A user name of one space, or the
  body \<^verbatim>\<open>null\<close>: the fields are required. The table stays empty and the log of calls stays
  empty.
\<close>

theorem create_validation_witness:
  "handleUsers (recording pg)
       \<lparr>Method = ''POST'', Path = ''/users'', EscapedPath = ''/users'', Body = None\<rparr>
       (pg_empty, []) =
     (\<lparr>status = 400, content_type = ''application/json'',
       body = [(''error'', VString ''invalid JSON'')]\<rparr>, (pg_empty, []))
   \<and> handleUsers (recording pg)
       \<lparr>Method = ''POST'', Path = ''/users'', EscapedPath = ''/users'',
        Body = Some (JObject [(''username'', JNumber ''5''),
                              (''email'', JString ''a@x.com'')])\<rparr>
       (pg_empty, []) =
     (\<lparr>status = 400, content_type = ''application/json'',
       body = [(''error'', VString ''invalid JSON'')]\<rparr>, (pg_empty, []))
   \<and> handleUsers (recording pg)
       \<lparr>Method = ''POST'', Path = ''/users'', EscapedPath = ''/users'',
        Body = Some (JObject [(''username'', JString '' ''),
                              (''email'', JString ''a@x.com'')])\<rparr>
       (pg_empty, []) =
     (\<lparr>status = 400, content_type = ''application/json'',
       body = [(''error'', VString ''username and email are required'')]\<rparr>, (pg_empty, []))
   \<and> handleUsers (recording pg)
       \<lparr>Method = ''POST'', Path = ''/users'', EscapedPath = ''/users'', Body = Some JNull\<rparr>
       (pg_empty, []) =
     (\<lparr>status = 400, content_type = ''application/json'',
       body = [(''error'', VString ''username and email are required'')]\<rparr>, (pg_empty, []))"
  using
    create_validation [of
      "\<lparr>Method = ''POST'', Path = ''/users'', EscapedPath = ''/users'', Body = None\<rparr>"
      pg pg_empty "[]"]
    create_validation [of
      "\<lparr>Method = ''POST'', Path = ''/users'', EscapedPath = ''/users'',
        Body = Some (JObject [(''username'', JNumber ''5''),
                              (''email'', JString ''a@x.com'')])\<rparr>"
      pg pg_empty "[]"]
    create_validation [of
      "\<lparr>Method = ''POST'', Path = ''/users'', EscapedPath = ''/users'',
        Body = Some (JObject [(''username'', JString '' ''),
                              (''email'', JString ''a@x.com'')])\<rparr>"
      pg pg_empty "[]"]
    create_validation [of
      "\<lparr>Method = ''POST'', Path = ''/users'', EscapedPath = ''/users'', Body = Some JNull\<rparr>"
      pg pg_empty "[]"]
  by (simp add: Decode_eval Decode_eval_bad ValidString_eval TrimSpace_eval)

text \<open>
  Claim C3 (a user is created). For a \<^verbatim>\<open>POST /users\<close> request that passes both steps of
  the validation, exactly one statement is sent to the database: the \<^verbatim>\<open>INSERT\<close> with the
  fixed text \<open>insert_sql\<close>, which returns the new identifier, and with the user name and
  the e-mail address as its two parameters. When the statement succeeds with the
  identifier \<open>uid\<close>, the answer is status 201 with a body of the confirmation message and
  \<open>uid\<close> as \<^verbatim>\<open>user_id\<close>.
\<close>

theorem create_success:
  assumes "Method r = ''POST''" and "Path r = ''/users''"
    and "Decode (Body r) = Some req"
    and "TrimSpace (Username req) \<noteq> []" and "TrimSpace (Email req) \<noteq> []"
    and "QueryRowScanId a insert_sql [ArgString (Username req), ArgString (Email req)] db
           = (res, db')"
  shows "snd (handleUsers (recording a) r (db, log)) =
           (db', log @ [(insert_sql, [ArgString (Username req), ArgString (Email req)])])
       \<and> (\<forall>uid. res = Inr uid \<longrightarrow>
            fst (handleUsers (recording a) r (db, log)) =
              \<lparr>status = 201, content_type = ''application/json'',
               body = [(''message'', VString ''User created successfully''),
                       (''user_id'', VInt32 uid)]\<rparr>)"
  using assms
  by (cases res)
    (simp_all add: handleUsers_create createUser_valid [OF assms(3-5)] recording_ScanId)

text \<open>\<^verbatim>\<open>alice\<close> is inserted into the empty table and gets the identifier 1.\<close>

theorem create_success_witness:
  "handleUsers (recording pg)
       \<lparr>Method = ''POST'', Path = ''/users'', EscapedPath = ''/users'',
        Body = Some (JObject [(''username'', JString ''alice''),
                              (''email'', JString ''a@x.com'')])\<rparr>
       (pg_empty, []) =
     (\<lparr>status = 201, content_type = ''application/json'',
       body = [(''message'', VString ''User created successfully''), (''user_id'', VInt32 1)]\<rparr>,
      (db_alice,
       [(''INSERT INTO users (username, email) VALUES ($1, $2) RETURNING user_id'',
         [ArgString ''alice'', ArgString ''a@x.com''])]))"
  using create_success [of
      "\<lparr>Method = ''POST'', Path = ''/users'', EscapedPath = ''/users'',
        Body = Some (JObject [(''username'', JString ''alice''),
                              (''email'', JString ''a@x.com'')])\<rparr>"
      "\<lparr>Username = ''alice'', Email = ''a@x.com''\<rparr>" pg pg_empty "Inr 1" db_alice "[]"]
  by (simp add: Decode_eval ValidString_eval TrimSpace_eval pg_def pg_empty_def db_alice_def
      int32_max_def insert_sql_def prod_eq_iff)

subsection \<open>Looking a user up\<close>

text \<open>
  Claim C5 (validation of the identifier). For a \<^verbatim>\<open>GET\<close> request whose path is \<^verbatim>\<open>/users/\<close>
  followed by a first segment \<open>seg\<close> (which holds no slash, and after which the path ends
  or a slash follows), if \<open>seg\<close> is empty or \<^verbatim>\<open>strconv.Atoi\<close> rejects it, the handler
  answers with status 400 and the body \<^verbatim>\<open>{"error":"Invalid user_id"}\<close>, and no statement is
  sent to the database: the log of calls and the state of the database are as before.
  This holds of \<^verbatim>\<open>handleUsers\<close> and of \<^verbatim>\<open>getUser\<close>, to which it passes the request.
\<close>

theorem invalid_user_id:
  assumes "Method r = ''GET''"
    and "Path r = ''/users/'' @ seg @ rest"
    and "CHR ''/'' \<notin> set seg"
    and "rest = [] \<or> hd rest = CHR ''/''"
    and "seg = [] \<or> Atoi seg = None"
  shows "handleUsers (recording a) r (db, log) =
           (\<lparr>status = 400, content_type = ''application/json'',
             body = [(''error'', VString ''Invalid user_id'')]\<rparr>, (db, log))
       \<and> getUser (recording a) r (db, log) =
           (\<lparr>status = 400, content_type = ''application/json'',
             body = [(''error'', VString ''Invalid user_id'')]\<rparr>, (db, log))"
  using handleUsers_get [OF assms(1), of "seg @ rest" "recording a" "(db, log)"]
    getUser_invalid [OF assms(2-5), of "recording a" "(db, log)"] assms(2)
  by simp

text \<open>
  \<^verbatim>\<open>GET /users/abc\<close>, \<^verbatim>\<open>GET /users/\<close> and \<^verbatim>\<open>GET /users/12x/7\<close> on the table that holds
  \<^verbatim>\<open>alice\<close>.
\<close>

theorem invalid_user_id_witness:
  "handleUsers (recording pg)
       \<lparr>Method = ''GET'', Path = ''/users/abc'', EscapedPath = ''/users/abc'', Body = None\<rparr>
       (db_alice, []) =
     (\<lparr>status = 400, content_type = ''application/json'',
       body = [(''error'', VString ''Invalid user_id'')]\<rparr>, (db_alice, []))
   \<and> handleUsers (recording pg)
       \<lparr>Method = ''GET'', Path = ''/users/'', EscapedPath = ''/users/'', Body = None\<rparr>
       (db_alice, []) =
     (\<lparr>status = 400, content_type = ''application/json'',
       body = [(''error'', VString ''Invalid user_id'')]\<rparr>, (db_alice, []))
   \<and> handleUsers (recording pg)
       \<lparr>Method = ''GET'', Path = ''/users/12x/7'', EscapedPath = ''/users/12x/7'',
        Body = None\<rparr>
       (db_alice, []) =
     (\<lparr>status = 400, content_type = ''application/json'',
       body = [(''error'', VString ''Invalid user_id'')]\<rparr>, (db_alice, []))"
  using
    invalid_user_id [of
      "\<lparr>Method = ''GET'', Path = ''/users/abc'', EscapedPath = ''/users/abc'', Body = None\<rparr>"
      "''abc''" "[]" pg db_alice "[]"]
    invalid_user_id [of
      "\<lparr>Method = ''GET'', Path = ''/users/'', EscapedPath = ''/users/'', Body = None\<rparr>"
      "[]" "[]" pg db_alice "[]"]
    invalid_user_id [of
      "\<lparr>Method = ''GET'', Path = ''/users/12x/7'', EscapedPath = ''/users/12x/7'',
        Body = None\<rparr>"
      "''12x''" "''/7''" pg db_alice "[]"]
  by (simp add: Atoi_eval)

text \<open>
  Claim C4 (no such user). For a \<^verbatim>\<open>GET\<close> request whose path is \<^verbatim>\<open>/users/\<close> followed by a
  first segment that \<^verbatim>\<open>strconv.Atoi\<close> reads as the integer \<open>n\<close>, one statement is sent to
  the database, the \<^verbatim>\<open>SELECT\<close> with the fixed text \<open>select_sql\<close> and the parameter \<open>n\<close>.
  If it finds no row (\<^verbatim>\<open>sql.ErrNoRows\<close>), the answer is status 404 with the body
  \<^verbatim>\<open>{"error":"User not found"}\<close>. The status is 404 exactly when no row was found, and it
  is 500 exactly when the statement failed with another error.
\<close>

theorem user_not_found:
  assumes "Method r = ''GET''"
    and "Path r = ''/users/'' @ seg @ rest"
    and "CHR ''/'' \<notin> set seg"
    and "rest = [] \<or> hd rest = CHR ''/''"
    and "Atoi seg = Some n"
    and "QueryRowScanUser a select_sql [ArgInt n] db = (res, db')"
  shows "snd (handleUsers (recording a) r (db, log)) = (db', log @ [(select_sql, [ArgInt n])])
       \<and> (res = Inl ErrNoRows \<longrightarrow>
            fst (handleUsers (recording a) r (db, log)) =
              \<lparr>status = 404, content_type = ''application/json'',
               body = [(''error'', VString ''User not found'')]\<rparr>)
       \<and> (status (fst (handleUsers (recording a) r (db, log))) = 404 \<longleftrightarrow>
            res = Inl ErrNoRows)
       \<and> (status (fst (handleUsers (recording a) r (db, log))) = 500 \<longleftrightarrow>
            (\<exists>err. res = Inl err \<and> err \<noteq> ErrNoRows))"
proof -
  have "handleUsers (recording a) r (db, log) = getUser (recording a) r (db, log)"
    using handleUsers_get [OF assms(1,2)] .
  then show ?thesis
    using getUser_valid [OF assms(2-5), of "recording a" "(db, log)"] assms(6)
    by (cases res) (auto simp add: recording_ScanUser)
qed

text \<open>
  \<^verbatim>\<open>GET /users/7\<close> on the table that holds \<^verbatim>\<open>alice\<close> only: no row, status 404.
\<close>

theorem user_not_found_witness:
  "handleUsers (recording pg)
       \<lparr>Method = ''GET'', Path = ''/users/7'', EscapedPath = ''/users/7'', Body = None\<rparr>
       (db_alice, []) =
     (\<lparr>status = 404, content_type = ''application/json'',
       body = [(''error'', VString ''User not found'')]\<rparr>,
      (db_alice, [(''SELECT user_id, username, email FROM users WHERE user_id = $1'',
                   [ArgInt 7])]))"
  using user_not_found [of
      "\<lparr>Method = ''GET'', Path = ''/users/7'', EscapedPath = ''/users/7'', Body = None\<rparr>"
      "''7''" "[]" 7 pg db_alice "Inl ErrNoRows" db_alice "[]"]
  by (simp add: Atoi_eval pg_def db_alice_def select_sql_def prod_eq_iff)

text \<open>
  Claim C8 (further segments are ignored). For a \<^verbatim>\<open>GET\<close> request whose path is
  \<^verbatim>\<open>/users/\<close>, a segment \<open>seg\<close>, a slash and anything more, the handler does what it does
  for the path \<^verbatim>\<open>/users/\<close> followed by \<open>seg\<close> alone: the same response, the same state of
  the database and the same log of calls. When \<^verbatim>\<open>strconv.Atoi\<close> reads \<open>seg\<close> as \<open>n\<close>, the
  one statement sent is the \<^verbatim>\<open>SELECT\<close> with the parameter \<open>n\<close>: only \<open>seg\<close> is used as
  the identifier.
\<close>

theorem extra_segments_ignored:
  assumes "CHR ''/'' \<notin> set seg"
  shows "handleUsers (recording a)
           \<lparr>Method = ''GET'', Path = ''/users/'' @ seg @ CHR ''/'' # extra,
            EscapedPath = ep, Body = b\<rparr> (db, log) =
         handleUsers (recording a)
           \<lparr>Method = ''GET'', Path = ''/users/'' @ seg, EscapedPath = ep', Body = b'\<rparr> (db, log)
       \<and> (\<forall>n. Atoi seg = Some n \<longrightarrow>
            snd (snd (handleUsers (recording a)
              \<lparr>Method = ''GET'', Path = ''/users/'' @ seg @ CHR ''/'' # extra,
               EscapedPath = ep, Body = b\<rparr> (db, log))) = log @ [(select_sql, [ArgInt n])])"
proof -
  let ?r1 = "\<lparr>Method = ''GET'', Path = ''/users/'' @ seg @ CHR ''/'' # extra,
              EscapedPath = ep, Body = b\<rparr>"
  let ?r2 = "\<lparr>Method = ''GET'', Path = ''/users/'' @ seg, EscapedPath = ep', Body = b'\<rparr>"
  have h1: "handleUsers (recording a) ?r1 (db, log) = getUser (recording a) ?r1 (db, log)"
    using handleUsers_get [of ?r1 "seg @ CHR ''/'' # extra"] by simp
  have h2: "handleUsers (recording a) ?r2 (db, log) = getUser (recording a) ?r2 (db, log)"
    using handleUsers_get [of ?r2 seg] by simp
  have p1: "Path ?r1 = ''/users/'' @ seg @ (CHR ''/'' # extra)" by simp
  have p2: "Path ?r2 = ''/users/'' @ seg @ []" by simp
  have t1: "CHR ''/'' # extra = [] \<or> hd (CHR ''/'' # extra) = CHR ''/''" by simp
  have t2: "([] :: string) = [] \<or> hd ([] :: string) = CHR ''/''" by simp
  show ?thesis
  proof (cases "Atoi seg")
    case None
    then have bad: "seg = [] \<or> Atoi seg = None" by simp
    show ?thesis
      using getUser_invalid [OF p1 assms t1 bad, of "recording a" "(db, log)"]
        getUser_invalid [OF p2 assms t2 bad, of "recording a" "(db, log)"] h1 h2 None
      by simp
  next
    case (Some n)
    show ?thesis
      using getUser_valid [OF p1 assms t1 Some, of "recording a" "(db, log)"]
        getUser_valid [OF p2 assms t2 Some, of "recording a" "(db, log)"] h1 h2 Some
      by (auto simp add: recording_ScanUser split: prod.splits sum.splits)
  qed
qed

text \<open>
  \<^verbatim>\<open>GET /users/1/extra\<close> and \<^verbatim>\<open>GET /users/1\<close> on the table that holds \<^verbatim>\<open>alice\<close>: both find
  her.
\<close>

theorem extra_segments_ignored_witness:
  "handleUsers (recording pg)
       \<lparr>Method = ''GET'', Path = ''/users/1/extra'', EscapedPath = ''/users/1/extra'',
        Body = None\<rparr> (db_alice, []) =
     handleUsers (recording pg)
       \<lparr>Method = ''GET'', Path = ''/users/1'', EscapedPath = ''/users/1'', Body = None\<rparr>
       (db_alice, [])
   \<and> handleUsers (recording pg)
       \<lparr>Method = ''GET'', Path = ''/users/1'', EscapedPath = ''/users/1'', Body = None\<rparr>
       (db_alice, []) =
     (\<lparr>status = 200, content_type = ''application/json'',
       body = [(''user_id'', VInt32 1), (''username'', VString ''alice''),
               (''email'', VString ''a@x.com'')]\<rparr>,
      (db_alice, [(''SELECT user_id, username, email FROM users WHERE user_id = $1'',
                   [ArgInt 1])]))"
proof -
  have "handleUsers (recording pg)
       \<lparr>Method = ''GET'', Path = ''/users/1'', EscapedPath = ''/users/1'', Body = None\<rparr>
       (db_alice, []) =
     (\<lparr>status = 200, content_type = ''application/json'',
       body = [(''user_id'', VInt32 1), (''username'', VString ''alice''),
               (''email'', VString ''a@x.com'')]\<rparr>,
      (db_alice, [(''SELECT user_id, username, email FROM users WHERE user_id = $1'',
                   [ArgInt 1])]))"
    by (simp add: handleUsers_def getUser_def TrimPrefix_def HasPrefix_def Atoi_eval
        recording_ScanUser pg_def db_alice_def select_sql_def jsonWrite_fixed Status_defs
        replaceInvalid_valid ValidString_eval)
  then show ?thesis
    using extra_segments_ignored [of "''1''" pg "''extra''" "''/users/1/extra''" None
        db_alice "[]" "''/users/1''" None]
    by simp
qed

subsection \<open>A failing database\<close>

text \<open>
  Claim C6 (the shape of a database failure), as amended. When the \<^verbatim>\<open>INSERT\<close> of
  \<^verbatim>\<open>createUser\<close> fails with an error, and when the \<^verbatim>\<open>SELECT\<close> of \<^verbatim>\<open>getUser\<close> fails with an
  error other than \<^verbatim>\<open>sql.ErrNoRows\<close>, the answer is status 500 with the body
  \<^verbatim>\<open>{"error":"Database error","detail":...}\<close>, in both handlers alike. The detail is the
  text of the error as the JSON encoder writes it: the text itself when it is well-formed
  UTF-8, and otherwise the text with every byte that does not begin a well-formed
  encoding replaced by U+FFFD.
\<close>

theorem database_error:
  "(Method r = ''POST'' \<and> Path r = ''/users'' \<and> Decode (Body r) = Some req \<and>
    TrimSpace (Username req) \<noteq> [] \<and> TrimSpace (Email req) \<noteq> [] \<and>
    QueryRowScanId a insert_sql [ArgString (Username req), ArgString (Email req)] db
      = (Inl err, db') \<longrightarrow>
      handleUsers a r db =
        (\<lparr>status = 500, content_type = ''application/json'',
          body = [(''error'', VString ''Database error''),
                  (''detail'', VString (replaceInvalid (Error err)))]\<rparr>, db'))
   \<and> (Method r = ''GET'' \<and> Path r = ''/users/'' @ seg @ rest \<and> CHR ''/'' \<notin> set seg \<and>
      (rest = [] \<or> hd rest = CHR ''/'') \<and> Atoi seg = Some n \<and>
      QueryRowScanUser a select_sql [ArgInt n] db = (Inl err, db') \<and> err \<noteq> ErrNoRows \<longrightarrow>
      handleUsers a r db =
        (\<lparr>status = 500, content_type = ''application/json'',
          body = [(''error'', VString ''Database error''),
                  (''detail'', VString (replaceInvalid (Error err)))]\<rparr>, db'))
   \<and> (ValidString (Error err) \<longrightarrow> replaceInvalid (Error err) = Error err)"
proof (intro conjI impI)
  assume h: "Method r = ''POST'' \<and> Path r = ''/users'' \<and> Decode (Body r) = Some req \<and>
    TrimSpace (Username req) \<noteq> [] \<and> TrimSpace (Email req) \<noteq> [] \<and>
    QueryRowScanId a insert_sql [ArgString (Username req), ArgString (Email req)] db
      = (Inl err, db')"
  then have "handleUsers a r db = createUser a r db"
    by (simp add: handleUsers_create)
  with h show "handleUsers a r db =
        (\<lparr>status = 500, content_type = ''application/json'',
          body = [(''error'', VString ''Database error''),
                  (''detail'', VString (replaceInvalid (Error err)))]\<rparr>, db')"
    using createUser_valid [of r req a db] by simp
next
  assume h: "Method r = ''GET'' \<and> Path r = ''/users/'' @ seg @ rest \<and> CHR ''/'' \<notin> set seg \<and>
      (rest = [] \<or> hd rest = CHR ''/'') \<and> Atoi seg = Some n \<and>
      QueryRowScanUser a select_sql [ArgInt n] db = (Inl err, db') \<and> err \<noteq> ErrNoRows"
  then have "handleUsers a r db = getUser a r db"
    using handleUsers_get [of r "seg @ rest" a db] by simp
  with h show "handleUsers a r db =
        (\<lparr>status = 500, content_type = ''application/json'',
          body = [(''error'', VString ''Database error''),
                  (''detail'', VString (replaceInvalid (Error err)))]\<rparr>, db')"
    using getUser_valid [of r seg rest n a db] by simp
next
  assume "ValidString (Error err)"
  then show "replaceInvalid (Error err) = Error err"
    by (rule replaceInvalid_valid)
qed

text \<open>
  A database that refuses the connection: \<^verbatim>\<open>POST /users\<close> for \<^verbatim>\<open>alice\<close> and
  \<^verbatim>\<open>GET /users/1\<close> are both answered with status 500 and the text of the error.
\<close>

theorem database_error_witness:
  "handleUsers (unavailable (Err ''connection refused''))
       \<lparr>Method = ''POST'', Path = ''/users'', EscapedPath = ''/users'',
        Body = Some (JObject [(''username'', JString ''alice''),
                              (''email'', JString ''a@x.com'')])\<rparr> () =
     (\<lparr>status = 500, content_type = ''application/json'',
       body = [(''error'', VString ''Database error''),
               (''detail'', VString ''connection refused'')]\<rparr>, ())
   \<and> handleUsers (unavailable (Err ''connection refused''))
       \<lparr>Method = ''GET'', Path = ''/users/1'', EscapedPath = ''/users/1'', Body = None\<rparr> () =
     (\<lparr>status = 500, content_type = ''application/json'',
       body = [(''error'', VString ''Database error''),
               (''detail'', VString ''connection refused'')]\<rparr>, ())"
  using
    database_error [of
      "\<lparr>Method = ''POST'', Path = ''/users'', EscapedPath = ''/users'',
        Body = Some (JObject [(''username'', JString ''alice''),
                              (''email'', JString ''a@x.com'')])\<rparr>"
      "\<lparr>Username = ''alice'', Email = ''a@x.com''\<rparr>"
      "unavailable (Err ''connection refused'')" "()" "Err ''connection refused''" "()"
      "[]" "[]" 0]
    database_error [of
      "\<lparr>Method = ''GET'', Path = ''/users/1'', EscapedPath = ''/users/1'', Body = None\<rparr>"
      "\<lparr>Username = [], Email = []\<rparr>"
      "unavailable (Err ''connection refused'')" "()" "Err ''connection refused''" "()"
      "''1''" "[]" 1]
  by (simp add: Decode_eval ValidString_eval TrimSpace_eval Atoi_eval unavailable_def
      ValidString_ascii inRange_def)

text \<open>
  The claim as it is written, with the detail exactly the text of the error, fails for an
  error whose text is not well-formed UTF-8: for the text of the one byte FF the detail
  is U+FFFD.
\<close>

theorem database_error_counterexample:
  "body (fst (handleUsers (unavailable (Err [CHR 0xFF]))
       \<lparr>Method = ''GET'', Path = ''/users/1'', EscapedPath = ''/users/1'', Body = None\<rparr> ())) =
     [(''error'', VString ''Database error''),
      (''detail'', VString [CHR 0xEF, CHR 0xBF, CHR 0xBD])]
   \<and> body (fst (handleUsers (unavailable (Err [CHR 0xFF]))
       \<lparr>Method = ''GET'', Path = ''/users/1'', EscapedPath = ''/users/1'', Body = None\<rparr> ())) \<noteq>
     [(''error'', VString ''Database error''),
      (''detail'', VString (Error (Err [CHR 0xFF])))]"
  by (simp add: handleUsers_def getUser_def TrimPrefix_def HasPrefix_def Atoi_eval
      unavailable_def jsonWrite_fixed Status_defs replaceInvalid.simps runeSize_def
      firstByte_def inRange_def replacementChar_def)

subsection \<open>What is stored and what comes back\<close>

text \<open>
  Claim C10 (the strings are not trimmed). The white space is trimmed for the test of
  emptiness only. For a \<^verbatim>\<open>POST /users\<close> request that passes the validation, the parameters
  of the \<^verbatim>\<open>INSERT\<close> are the user name and the e-mail address as they were decoded, white
  space included. \<^verbatim>\<open>getUser\<close> writes the strings of the row as the database returns them:
  with a database that, for the new identifier, returns the strings it was given, the
  answer to the following \<^verbatim>\<open>GET\<close> for that identifier has status 200 and holds the user
  name and the e-mail address exactly as they were decoded, white space included.
\<close>

theorem untrimmed_persistence:
  assumes "Method r = ''POST''" and "Path r = ''/users''"
    and "Decode (Body r) = Some req"
    and "TrimSpace (Username req) \<noteq> []" and "TrimSpace (Email req) \<noteq> []"
    and "QueryRowScanId a insert_sql [ArgString (Username req), ArgString (Email req)] db
           = (Inr uid, db1)"
    and "QueryRowScanUser a select_sql [ArgInt (sint uid)] db1
           = (Inr (uid, Username req, Email req), db2)"
  shows "handleUsers (recording a) r (db, log) =
           (\<lparr>status = 201, content_type = ''application/json'',
             body = [(''message'', VString ''User created successfully''),
                     (''user_id'', VInt32 uid)]\<rparr>,
            (db1, log @ [(insert_sql, [ArgString (Username req), ArgString (Email req)])]))
       \<and> handleUsers (recording a)
           \<lparr>Method = ''GET'', Path = ''/users/'' @ Itoa (sint uid),
            EscapedPath = ''/users/'' @ Itoa (sint uid), Body = None\<rparr> (db1, log1) =
           (\<lparr>status = 200, content_type = ''application/json'',
             body = [(''user_id'', VInt32 uid),
                     (''username'', VString (Username req)),
                     (''email'', VString (Email req))]\<rparr>,
            (db2, log1 @ [(select_sql, [ArgInt (sint uid)])]))"
proof -
  let ?g = "\<lparr>Method = ''GET'', Path = ''/users/'' @ Itoa (sint uid),
             EscapedPath = ''/users/'' @ Itoa (sint uid), Body = None\<rparr>"
  have create: "handleUsers (recording a) r (db, log) =
           (\<lparr>status = 201, content_type = ''application/json'',
             body = [(''message'', VString ''User created successfully''),
                     (''user_id'', VInt32 uid)]\<rparr>,
            (db1, log @ [(insert_sql, [ArgString (Username req), ArgString (Email req)])]))"
    using assms(1,2,6) createUser_valid [OF assms(3-5), of "recording a" "(db, log)"]
    by (simp add: handleUsers_create recording_ScanId)
  have range: "- (2 ^ 63) \<le> sint uid" "sint uid < 2 ^ 63"
    using sint_range_size [of uid] by (simp_all add: word_size)
  have atoi: "Atoi (Itoa (sint uid)) = Some (sint uid)"
    using Atoi_Itoa [OF range] .
  have p: "Path ?g = ''/users/'' @ Itoa (sint uid) @ []" by simp
  have t: "([] :: string) = [] \<or> hd ([] :: string) = CHR ''/''" by simp
  have valid: "replaceInvalid (Username req) = Username req"
    "replaceInvalid (Email req) = Email req"
    using Decode_valid [OF assms(3)] by (simp_all add: replaceInvalid_valid)
  have "handleUsers (recording a) ?g (db1, log1) = getUser (recording a) ?g (db1, log1)"
    using handleUsers_get [of ?g "Itoa (sint uid)"] by simp
  then have get: "handleUsers (recording a) ?g (db1, log1) =
           (\<lparr>status = 200, content_type = ''application/json'',
             body = [(''user_id'', VInt32 uid),
                     (''username'', VString (Username req)),
                     (''email'', VString (Email req))]\<rparr>,
            (db2, log1 @ [(select_sql, [ArgInt (sint uid)])]))"
    using getUser_valid [OF p Itoa_no_slash t atoi, of "recording a" "(db1, log1)"] assms(7)
    by (simp add: recording_ScanUser valid)
  from create get show ?thesis by simp
qed

text \<open>
  \<^verbatim>\<open>" alice "\<close> with the e-mail address \<^verbatim>\<open>" a@x.com"\<close> is inserted into the empty table and
  read back: the parameters of the \<^verbatim>\<open>INSERT\<close> and the strings of the answer keep the
  spaces, although the trimmed user name is \<^verbatim>\<open>"alice"\<close>.
\<close>

theorem untrimmed_persistence_witness:
  "TrimSpace '' alice '' = ''alice''
   \<and> handleUsers (recording pg)
       \<lparr>Method = ''POST'', Path = ''/users'', EscapedPath = ''/users'',
        Body = Some (JObject [(''username'', JString '' alice ''),
                              (''email'', JString '' a@x.com'')])\<rparr> (pg_empty, []) =
     (\<lparr>status = 201, content_type = ''application/json'',
       body = [(''message'', VString ''User created successfully''), (''user_id'', VInt32 1)]\<rparr>,
      (\<lparr>users = [(1, '' alice '', '' a@x.com'')], next_id = 2\<rparr>,
       [(''INSERT INTO users (username, email) VALUES ($1, $2) RETURNING user_id'',
         [ArgString '' alice '', ArgString '' a@x.com''])]))
   \<and> handleUsers (recording pg)
       \<lparr>Method = ''GET'', Path = ''/users/1'', EscapedPath = ''/users/1'', Body = None\<rparr>
       (\<lparr>users = [(1, '' alice '', '' a@x.com'')], next_id = 2\<rparr>, []) =
     (\<lparr>status = 200, content_type = ''application/json'',
       body = [(''user_id'', VInt32 1), (''username'', VString '' alice ''),
               (''email'', VString '' a@x.com'')]\<rparr>,
      (\<lparr>users = [(1, '' alice '', '' a@x.com'')], next_id = 2\<rparr>,
       [(''SELECT user_id, username, email FROM users WHERE user_id = $1'', [ArgInt 1])]))"
  using untrimmed_persistence [of
      "\<lparr>Method = ''POST'', Path = ''/users'', EscapedPath = ''/users'',
        Body = Some (JObject [(''username'', JString '' alice ''),
                              (''email'', JString '' a@x.com'')])\<rparr>"
      "\<lparr>Username = '' alice '', Email = '' a@x.com''\<rparr>" pg pg_empty 1
      "\<lparr>users = [(1, '' alice '', '' a@x.com'')], next_id = 2\<rparr>"
      "\<lparr>users = [(1, '' alice '', '' a@x.com'')], next_id = 2\<rparr>" "[]" "[]"]
  by (simp add: Decode_eval ValidString_ascii inRange_def TrimSpace_eval pg_def pg_empty_def
      int32_max_def insert_sql_def select_sql_def Itoa_eval)



end
